theory Spec2Isabelle
  imports Main "HOL-Library.Word"
begin

section \<open>The self-signed issuer of certificate requests\<close>

text \<open>
  A shallow embedding of \<^verbatim>\<open>pkg/controller/certificaterequests/selfsigned/selfsigned.go\<close>:
  the method \<^verbatim>\<open>(*SelfSigned).Sign\<close> with the data it reads and the calls it makes on
  its collaborators.
\<close>

subsection \<open>Data\<close>

type_synonym byte = "8 word"

text \<open>
  A Go \<^verbatim>\<open>error\<close> value that is not nil. \<open>errors_New text\<close> is what
  \<^verbatim>\<open>errors.New(text)\<close> builds; \<open>Foreign x\<close> is an error that a collaborator
  handed back. A nullable error is an \<open>'x error option\<close>.
\<close>

datatype 'x error = errors_New string | Foreign 'x

text \<open>
  The fields of \<^verbatim>\<open>cmapi.CertificateRequest\<close> that the issuer and its collaborators
  read: namespace and annotations of the object metadata, and the encoded request.
\<close>

record CertificateRequest =
  Namespace :: string
  Annotations :: "string \<rightharpoonup> string"
  Request :: "byte list"

text \<open>
  \<^verbatim>\<open>x509.Certificate\<close>, the template: the three fields \<^verbatim>\<open>Sign\<close> touches. The
  subject name and the public key are opaque. The fields \<^verbatim>\<open>Sign\<close> never looks at (serial
  number, validity, and so on) are the extension of the record.
\<close>

record ('n, 'p) x509_Certificate =
  Subject :: 'n
  PublicKey :: 'p
  CRLDistributionPoints :: "string list"

text \<open>
  The issuer's spec. \<^verbatim>\<open>SelfSigned\<close> is a pointer in the source, so it may be nil.
\<close>

record SelfSignedIssuer =
  IssuerCRLDistributionPoints :: "string list"

record IssuerSpec =
  SelfSigned :: "SelfSignedIssuer option"

record IssueResponse =
  Certificate :: "byte list"
  CA :: "byte list"

text \<open>
  What an invocation does besides returning: the calls on the reporter
  (\<open>Failed\<close>, \<open>Pending\<close>), on the event recorder (\<open>Event\<close>) and on the logger, in the
  order they are made. Every reporter and recorder call of \<^verbatim>\<open>Sign\<close> passes the request
  being signed as its first argument; that argument is left out.
\<close>

datatype 'x effect =
    Failed "'x error" string string
  | Pending "'x error" string string
  | Event string string string
  | LogError "'x error" string
  | LogInfo string

text \<open>
  How an invocation ends: it returns the pair \<^verbatim>\<open>(*issuer.IssueResponse, error)\<close>, or
  it panics on a nil pointer.
\<close>

datatype 'x returned =
    Panicked
  | Returned "IssueResponse option" "'x error option"

text \<open>
  The constant \<^verbatim>\<open>emptyDNMessage\<close> of the file, and \<^verbatim>\<open>corev1.EventTypeWarning\<close> of the
  Kubernetes API, the event type \<^verbatim>\<open>Sign\<close> passes to the recorder.
\<close>

definition emptyDNMessage :: string where
  "emptyDNMessage = ''Certificate will be issued with an empty Issuer DN, which contravenes RFC 5280 and could break some strict clients''"

definition EventTypeWarning :: string where
  "EventTypeWarning = ''Warning''"

subsection \<open>Collaborators\<close>

text \<open>
  The functions \<^verbatim>\<open>Sign\<close> calls that live outside the file, as parameters: the fields of the
  \<^verbatim>\<open>SelfSigned\<close> struct (\<^verbatim>\<open>issuerOptions\<close>, the secrets lister behind
  \<^verbatim>\<open>kube.SecretTLSKey\<close>, \<^verbatim>\<open>signingFn\<close>), the \<^verbatim>\<open>pki\<close> helpers, the two error
  classifiers, \<^verbatim>\<open>fmt.Sprintf\<close>, \<^verbatim>\<open>pkix.Name.String\<close>, the method
  \<^verbatim>\<open>GetSpec\<close> of the issuer interface and the annotation key constant.
  A call that returns \<^verbatim>\<open>(value, error)\<close> and is only read through its error first
  is a sum; \<^verbatim>\<open>pki.PublicKeysEqual\<close>, whose both results are inspected, is a pair.
  The signing strategy takes one more argument \<open>'w\<close>: the randomness and the clock that
  a real signer reads (the struct's comment on \<^verbatim>\<open>signingFn\<close>: used for testing to
  get reproducible resulting certificates). Within one invocation the other collaborators are
  functions of their arguments. What the key resolver and the template builder return can
  change from one invocation to the next (the lister's cache, a serial number, the clock):
  that is another value of their fields.
\<close>

record ('x, 'k, 'p, 'n, 'w, 'i, 'z) SelfSigned =
  ResourceNamespace :: "'i \<Rightarrow> string"
  GetSpec :: "'i \<Rightarrow> IssuerSpec"
  CertificateRequestPrivateKeyAnnotationKey :: string
  Sprintf :: "string \<Rightarrow> string list \<Rightarrow> string"
  SecretTLSKey :: "string \<Rightarrow> string \<Rightarrow> 'x error + 'k"
  IsNotFound :: "'x error \<Rightarrow> bool"
  IsInvalidData :: "'x error \<Rightarrow> bool"
  GenerateTemplateFromCertificateRequest ::
    "CertificateRequest \<Rightarrow> 'x error + ('n, 'p, 'z) x509_Certificate_scheme"
  Subject_String :: "'n \<Rightarrow> string"
  PublicKeyForPrivateKey :: "'k \<Rightarrow> 'x error + 'p"
  PublicKeysEqual :: "'p \<Rightarrow> 'p \<Rightarrow> bool \<times> 'x error option"
  signingFn ::
    "'w \<Rightarrow> ('n, 'p, 'z) x509_Certificate_scheme \<Rightarrow> ('n, 'p, 'z) x509_Certificate_scheme \<Rightarrow> 'p \<Rightarrow> 'k
        \<Rightarrow> 'x error + (byte list \<times> ('n, 'p, 'z) x509_Certificate_scheme)"

subsection \<open>Sign\<close>

text \<open>Go's two-result map index \<^verbatim>\<open>v, ok := m[k]\<close>: the zero value when the key is absent.\<close>

definition map_index :: "(string \<rightharpoonup> string) \<Rightarrow> string \<Rightarrow> string \<times> bool" where
  "map_index m k = (case m k of None \<Rightarrow> ('''', False) | Some v \<Rightarrow> (v, True))"

text \<open>
  \<^verbatim>\<open>Sign\<close>, branch by branch in the order of the source. The three tests on the error of
  \<^verbatim>\<open>kube.SecretTLSKey\<close> (\<^verbatim>\<open>IsNotFound\<close>, \<^verbatim>\<open>IsInvalidData\<close>, \<^verbatim>\<open>err != nil\<close>)
  are all false on a nil error, which is the branch \<open>Inr\<close>.
\<close>

definition Sign ::
  "('x, 'k, 'p, 'n, 'w, 'i, 'z) SelfSigned \<Rightarrow> 'w \<Rightarrow> CertificateRequest \<Rightarrow> 'i
     \<Rightarrow> 'x returned \<times> 'x effect list" where
  "Sign s w cr issuerObj =
    (let resourceNamespace = ResourceNamespace s issuerObj;
         (secretName, ok) = map_index (Annotations cr) (CertificateRequestPrivateKeyAnnotationKey s)
     in
     if \<not> ok \<or> secretName = '''' then
       (let message = Sprintf s ''Annotation %q missing or reference empty''
                        [CertificateRequestPrivateKeyAnnotationKey s];
            err = errors_New ''secret name missing''
        in (Returned None None, [Failed err ''MissingAnnotation'' message, LogError err message]))
     else
     (case SecretTLSKey s (Namespace cr) secretName of
       Inl err \<Rightarrow>
         if IsNotFound s err then
           (let message = Sprintf s ''Referenced secret %s/%s not found'' [Namespace cr, secretName]
            in (Returned None None, [Pending err ''MissingSecret'' message, LogError err message]))
         else if IsInvalidData s err then
           (let message = Sprintf s ''Failed to get key %q referenced in annotation %q''
                            [secretName, CertificateRequestPrivateKeyAnnotationKey s]
            in (Returned None None, [Pending err ''ErrorParsingKey'' message, LogError err message]))
         else
           (let message = Sprintf s ''Failed to get certificate key pair from secret %s/%s''
                            [resourceNamespace, secretName]
            in (Returned None (Some err),
                [Pending err ''ErrorGettingSecret'' message, LogError err message]))
     | Inr privatekey \<Rightarrow>
     (case GenerateTemplateFromCertificateRequest s cr of
       Inl err \<Rightarrow>
         (let message = ''Error generating certificate template''
          in (Returned None None, [Failed err ''ErrorGenerating'' message, LogError err message]))
     | Inr template0 \<Rightarrow>
     (case SelfSigned (GetSpec s issuerObj) of
       None \<Rightarrow> (Panicked, [])
     | Some selfSigned \<Rightarrow>
     (let template = template0\<lparr>CRLDistributionPoints := IssuerCRLDistributionPoints selfSigned\<rparr>;
          warned =
            (if Subject_String s (Subject template) = '''' then
               [LogInfo ''issued cert will have an empty issuer DN, which contravenes RFC 5280. emitting warning event'',
                Event EventTypeWarning ''BadConfig'' emptyDNMessage]
             else [])
      in
      (case PublicKeyForPrivateKey s privatekey of
        Inl err \<Rightarrow>
          (let message = ''Failed to get public key from private key''
           in (Returned None None,
               warned @ [Failed err ''ErrorPublicKey'' message, LogError err message]))
      | Inr publickey \<Rightarrow>
      (let (ok, err) = PublicKeysEqual s publickey (PublicKey template)
       in
       if err \<noteq> None \<or> \<not> ok then
         (let err = (case err of None \<Rightarrow> errors_New ''CSR not signed by referenced private key''
                                | Some e \<Rightarrow> e);
              message = ''Error generating certificate template''
          in (Returned None None,
              warned @ [Failed err ''ErrorKeyMatch'' message, LogError err message]))
       else
       (case signingFn s w template template publickey privatekey of
         Inl err \<Rightarrow>
           (let message = ''Error signing certificate''
            in (Returned None None,
                warned @ [Failed err ''ErrorSigning'' message, LogError err message]))
       | Inr (certPem, _) \<Rightarrow>
           (Returned (Some \<lparr>Certificate = certPem, CA = certPem\<rparr>) None,
            warned @ [LogInfo ''self signed certificate issued''])))))))))"

subsection \<open>Vocabulary of the properties\<close>

text \<open>
  The effects that are calls on the reporter, the effects that are events, and the effects of
  lines 135 to 142 of the source: the debug log line and the warning event when the subject
  of the template serialises to the empty string, nothing otherwise.
\<close>

fun is_report :: "'x effect \<Rightarrow> bool" where
  "is_report (Failed _ _ _) = True"
| "is_report (Pending _ _ _) = True"
| "is_report _ = False"


definition warned ::
  "('x, 'k, 'p, 'n, 'w, 'i, 'z) SelfSigned \<Rightarrow> ('n, 'p, 'z) x509_Certificate_scheme \<Rightarrow> 'x effect list" where
  "warned s template =
     (if Subject_String s (Subject template) = '''' then
        [LogInfo ''issued cert will have an empty issuer DN, which contravenes RFC 5280. emitting warning event'',
         Event EventTypeWarning ''BadConfig'' emptyDNMessage]
      else [])"

subsection \<open>An example issuer\<close>

text \<open>
  A concrete set of collaborators on which \<^verbatim>\<open>Sign\<close> can be evaluated. Keys are numbers:
  the secret \<^verbatim>\<open>unusable\<close> holds the key 0, whose public key cannot be derived, every other
  secret that resolves holds the key 7, whose public key is 8. The first byte of a request is
  the public key it declares, the remaining bytes make its subject, and an empty request
  cannot be turned into a template. The signer refuses a template without CRL distribution
  points and otherwise returns three bytes: the public key, the private key and the number
  of CRL distribution points of the issuer template.
\<close>

definition example_SecretTLSKey :: "string \<Rightarrow> string \<Rightarrow> string error + nat" where
  "example_SecretTLSKey ns name =
     (if name = ''absent'' then Inl (Foreign ''NotFound'')
      else if name = ''garbled'' then Inl (Foreign ''InvalidData'')
      else if name = ''unreachable'' then Inl (Foreign ''Timeout'')
      else if name = ''unusable'' then Inr 0
      else Inr 7)"

definition example_GenerateTemplate :: "CertificateRequest \<Rightarrow> string error + (string, nat) x509_Certificate" where
  "example_GenerateTemplate cr =
     (case Request cr of
        [] \<Rightarrow> Inl (Foreign ''BadRequest'')
      | b # bs \<Rightarrow> Inr \<lparr>Subject = map (\<lambda>c. CHR ''x'') bs, PublicKey = unat b,
                       CRLDistributionPoints = [''http://request.example/crl'']\<rparr>)"

definition example_signingFn ::
  "nat \<Rightarrow> (string, nat) x509_Certificate \<Rightarrow> (string, nat) x509_Certificate \<Rightarrow> nat \<Rightarrow> nat
     \<Rightarrow> string error + (byte list \<times> (string, nat) x509_Certificate)" where
  "example_signingFn w issuer subject pub priv =
     (if CRLDistributionPoints subject = [] then Inl (Foreign ''NoCRL'')
      else Inr ([of_nat pub, of_nat priv, of_nat (length (CRLDistributionPoints issuer))], subject))"

definition example_issuer :: "(string, nat, nat, string, nat, IssuerSpec, unit) SelfSigned" where
  "example_issuer =
     \<lparr>ResourceNamespace = (\<lambda>_. ''cert-manager''),
      GetSpec = (\<lambda>i. i),
      CertificateRequestPrivateKeyAnnotationKey = ''cert-manager.io/private-key-secret-name'',
      Sprintf = (\<lambda>f args. f @ concat args),
      SecretTLSKey = example_SecretTLSKey,
      IsNotFound = (\<lambda>e. e = Foreign ''NotFound''),
      IsInvalidData = (\<lambda>e. e = Foreign ''InvalidData''),
      GenerateTemplateFromCertificateRequest = example_GenerateTemplate,
      Subject_String = (\<lambda>n. n),
      PublicKeyForPrivateKey = (\<lambda>k. if k = 0 then Inl (Foreign ''UnknownKeyType'') else Inr (k + 1)),
      PublicKeysEqual = (\<lambda>a b. if b = 0 then (False, Some (Foreign ''UnknownKeyType'')) else (a = b, None)),
      signingFn = example_signingFn\<rparr>"

definition example_request :: "string \<Rightarrow> byte list \<Rightarrow> CertificateRequest" where
  "example_request name csr =
     \<lparr>Namespace = ''default'',
      Annotations = [''cert-manager.io/private-key-secret-name'' \<mapsto> name],
      Request = csr\<rparr>"

definition example_spec :: "string list \<Rightarrow> IssuerSpec" where
  "example_spec crl = \<lparr>SelfSigned = Some \<lparr>IssuerCRLDistributionPoints = crl\<rparr>\<rparr>"




section \<open>Properties\<close>

subsection \<open>The paths through Sign\<close>

lemma Sign_MissingAnnotation:
  assumes "Annotations cr (CertificateRequestPrivateKeyAnnotationKey s) = None
           \<or> Annotations cr (CertificateRequestPrivateKeyAnnotationKey s) = Some ''''"
  shows "Sign s w cr issuerObj =
           (Returned None None,
            [Failed (errors_New ''secret name missing'') ''MissingAnnotation''
               (Sprintf s ''Annotation %q missing or reference empty'' [CertificateRequestPrivateKeyAnnotationKey s]),
             LogError (errors_New ''secret name missing'')
               (Sprintf s ''Annotation %q missing or reference empty'' [CertificateRequestPrivateKeyAnnotationKey s])])"
  using assms by (auto simp: Sign_def map_index_def Let_def)

lemma Sign_SecretTLSKey_error:
  assumes "Annotations cr (CertificateRequestPrivateKeyAnnotationKey s) = Some secretName"
    and "secretName \<noteq> ''''"
    and "SecretTLSKey s (Namespace cr) secretName = Inl err"
  shows "Sign s w cr issuerObj =
           (if IsNotFound s err then
              (Returned None None,
               [Pending err ''MissingSecret''
                  (Sprintf s ''Referenced secret %s/%s not found'' [Namespace cr, secretName]),
                LogError err (Sprintf s ''Referenced secret %s/%s not found'' [Namespace cr, secretName])])
            else if IsInvalidData s err then
              (Returned None None,
               [Pending err ''ErrorParsingKey''
                  (Sprintf s ''Failed to get key %q referenced in annotation %q''
                     [secretName, CertificateRequestPrivateKeyAnnotationKey s]),
                LogError err
                  (Sprintf s ''Failed to get key %q referenced in annotation %q''
                     [secretName, CertificateRequestPrivateKeyAnnotationKey s])])
            else
              (Returned None (Some err),
               [Pending err ''ErrorGettingSecret''
                  (Sprintf s ''Failed to get certificate key pair from secret %s/%s''
                     [ResourceNamespace s issuerObj, secretName]),
                LogError err
                  (Sprintf s ''Failed to get certificate key pair from secret %s/%s''
                     [ResourceNamespace s issuerObj, secretName])]))"
  using assms by (simp add: Sign_def map_index_def Let_def)

lemma Sign_ErrorGenerating:
  assumes "Annotations cr (CertificateRequestPrivateKeyAnnotationKey s) = Some secretName"
    and "secretName \<noteq> ''''"
    and "SecretTLSKey s (Namespace cr) secretName = Inr privatekey"
    and "GenerateTemplateFromCertificateRequest s cr = Inl err"
  shows "Sign s w cr issuerObj =
           (Returned None None,
            [Failed err ''ErrorGenerating'' ''Error generating certificate template'',
             LogError err ''Error generating certificate template''])"
  using assms by (simp add: Sign_def map_index_def Let_def)

lemma Sign_nil_SelfSigned:
  assumes "Annotations cr (CertificateRequestPrivateKeyAnnotationKey s) = Some secretName"
    and "secretName \<noteq> ''''"
    and "SecretTLSKey s (Namespace cr) secretName = Inr privatekey"
    and "GenerateTemplateFromCertificateRequest s cr = Inr template0"
    and "SelfSigned (GetSpec s issuerObj) = None"
  shows "Sign s w cr issuerObj = (Panicked, [])"
  using assms by (simp add: Sign_def map_index_def Let_def)

lemma Sign_ErrorPublicKey:
  assumes "Annotations cr (CertificateRequestPrivateKeyAnnotationKey s) = Some secretName"
    and "secretName \<noteq> ''''"
    and "SecretTLSKey s (Namespace cr) secretName = Inr privatekey"
    and "GenerateTemplateFromCertificateRequest s cr = Inr template0"
    and "SelfSigned (GetSpec s issuerObj) = Some selfSigned"
    and "PublicKeyForPrivateKey s privatekey = Inl err"
  shows "Sign s w cr issuerObj =
           (Returned None None,
            warned s (template0\<lparr>CRLDistributionPoints := IssuerCRLDistributionPoints selfSigned\<rparr>) @
              [Failed err ''ErrorPublicKey'' ''Failed to get public key from private key'',
               LogError err ''Failed to get public key from private key''])"
  using assms by (simp add: Sign_def map_index_def warned_def Let_def)

lemma Sign_ErrorKeyMatch:
  assumes "Annotations cr (CertificateRequestPrivateKeyAnnotationKey s) = Some secretName"
    and "secretName \<noteq> ''''"
    and "SecretTLSKey s (Namespace cr) secretName = Inr privatekey"
    and "GenerateTemplateFromCertificateRequest s cr = Inr template0"
    and "SelfSigned (GetSpec s issuerObj) = Some selfSigned"
    and "PublicKeyForPrivateKey s privatekey = Inr publickey"
    and "PublicKeysEqual s publickey (PublicKey template0) = (ok, err)"
    and "err \<noteq> None \<or> \<not> ok"
  shows "Sign s w cr issuerObj =
           (Returned None None,
            warned s (template0\<lparr>CRLDistributionPoints := IssuerCRLDistributionPoints selfSigned\<rparr>) @
              [Failed (case err of None \<Rightarrow> errors_New ''CSR not signed by referenced private key''
                                 | Some e \<Rightarrow> e)
                 ''ErrorKeyMatch'' ''Error generating certificate template'',
               LogError (case err of None \<Rightarrow> errors_New ''CSR not signed by referenced private key''
                                   | Some e \<Rightarrow> e)
                 ''Error generating certificate template''])"
  using assms by (simp add: Sign_def map_index_def warned_def Let_def)

lemma Sign_signing:
  assumes "Annotations cr (CertificateRequestPrivateKeyAnnotationKey s) = Some secretName"
    and "secretName \<noteq> ''''"
    and "SecretTLSKey s (Namespace cr) secretName = Inr privatekey"
    and "GenerateTemplateFromCertificateRequest s cr = Inr template0"
    and "SelfSigned (GetSpec s issuerObj) = Some selfSigned"
    and "PublicKeyForPrivateKey s privatekey = Inr publickey"
    and "PublicKeysEqual s publickey (PublicKey template0) = (True, None)"
    and "template = template0\<lparr>CRLDistributionPoints := IssuerCRLDistributionPoints selfSigned\<rparr>"
  shows "Sign s w cr issuerObj =
           (case signingFn s w template template publickey privatekey of
              Inl err \<Rightarrow>
                (Returned None None,
                 warned s template @
                   [Failed err ''ErrorSigning'' ''Error signing certificate'',
                    LogError err ''Error signing certificate''])
            | Inr (certPem, cert) \<Rightarrow>
                (Returned (Some \<lparr>Certificate = certPem, CA = certPem\<rparr>) None,
                 warned s template @ [LogInfo ''self signed certificate issued'']))"
  using assms by (simp add: Sign_def map_index_def warned_def Let_def split: sum.splits prod.splits)

lemma filter_report_warned [simp]: "filter is_report (warned s template) = []"
  by (simp add: warned_def)

text \<open>Every invocation is on exactly one of these paths.\<close>

lemma Sign_cases:
  obtains
    (MissingAnnotation)
      "Annotations cr (CertificateRequestPrivateKeyAnnotationKey s) = None
       \<or> Annotations cr (CertificateRequestPrivateKeyAnnotationKey s) = Some ''''"
  | (KeyError) secretName err where
      "Annotations cr (CertificateRequestPrivateKeyAnnotationKey s) = Some secretName"
      "secretName \<noteq> ''''"
      "SecretTLSKey s (Namespace cr) secretName = Inl err"
  | (ErrorGenerating) secretName privatekey err where
      "Annotations cr (CertificateRequestPrivateKeyAnnotationKey s) = Some secretName"
      "secretName \<noteq> ''''"
      "SecretTLSKey s (Namespace cr) secretName = Inr privatekey"
      "GenerateTemplateFromCertificateRequest s cr = Inl err"
  | (Panic) secretName privatekey template0 where
      "Annotations cr (CertificateRequestPrivateKeyAnnotationKey s) = Some secretName"
      "secretName \<noteq> ''''"
      "SecretTLSKey s (Namespace cr) secretName = Inr privatekey"
      "GenerateTemplateFromCertificateRequest s cr = Inr template0"
      "SelfSigned (GetSpec s issuerObj) = None"
  | (ErrorPublicKey) secretName privatekey template0 selfSigned err where
      "Annotations cr (CertificateRequestPrivateKeyAnnotationKey s) = Some secretName"
      "secretName \<noteq> ''''"
      "SecretTLSKey s (Namespace cr) secretName = Inr privatekey"
      "GenerateTemplateFromCertificateRequest s cr = Inr template0"
      "SelfSigned (GetSpec s issuerObj) = Some selfSigned"
      "PublicKeyForPrivateKey s privatekey = Inl err"
  | (ErrorKeyMatch) secretName privatekey template0 selfSigned publickey ok err where
      "Annotations cr (CertificateRequestPrivateKeyAnnotationKey s) = Some secretName"
      "secretName \<noteq> ''''"
      "SecretTLSKey s (Namespace cr) secretName = Inr privatekey"
      "GenerateTemplateFromCertificateRequest s cr = Inr template0"
      "SelfSigned (GetSpec s issuerObj) = Some selfSigned"
      "PublicKeyForPrivateKey s privatekey = Inr publickey"
      "PublicKeysEqual s publickey (PublicKey template0) = (ok, err)"
      "err \<noteq> None \<or> \<not> ok"
  | (Signing) secretName privatekey template0 selfSigned publickey where
      "Annotations cr (CertificateRequestPrivateKeyAnnotationKey s) = Some secretName"
      "secretName \<noteq> ''''"
      "SecretTLSKey s (Namespace cr) secretName = Inr privatekey"
      "GenerateTemplateFromCertificateRequest s cr = Inr template0"
      "SelfSigned (GetSpec s issuerObj) = Some selfSigned"
      "PublicKeyForPrivateKey s privatekey = Inr publickey"
      "PublicKeysEqual s publickey (PublicKey template0) = (True, None)"
proof (cases "Annotations cr (CertificateRequestPrivateKeyAnnotationKey s)")
  case None
  then show ?thesis using MissingAnnotation by simp
next
  case (Some secretName)
  note ann = this
  show ?thesis
  proof (cases "secretName = ''''")
    case True
    then show ?thesis using ann MissingAnnotation by simp
  next
    case False
    note ne = this
    show ?thesis
    proof (cases "SecretTLSKey s (Namespace cr) secretName")
      case (Inl err)
      then show ?thesis using ann ne KeyError by blast
    next
      case (Inr privatekey)
      note key = this
      show ?thesis
      proof (cases "GenerateTemplateFromCertificateRequest s cr")
        case (Inl err)
        then show ?thesis using ann ne key ErrorGenerating by blast
      next
        case (Inr template0)
        note tmpl = this
        show ?thesis
        proof (cases "SelfSigned (GetSpec s issuerObj)")
          case None
          then show ?thesis using ann ne key tmpl Panic by blast
        next
          case (Some selfSigned)
          note spec = this
          show ?thesis
          proof (cases "PublicKeyForPrivateKey s privatekey")
            case (Inl err)
            then show ?thesis using ann ne key tmpl spec ErrorPublicKey by blast
          next
            case (Inr publickey)
            note pub = this
            obtain ok err where eq: "PublicKeysEqual s publickey (PublicKey template0) = (ok, err)"
              by (cases "PublicKeysEqual s publickey (PublicKey template0)")
            show ?thesis
            proof (cases "err \<noteq> None \<or> \<not> ok")
              case True
              then show ?thesis using ann ne key tmpl spec pub eq ErrorKeyMatch by blast
            next
              case False
              then have "PublicKeysEqual s publickey (PublicKey template0) = (True, None)"
                using eq by simp
              then show ?thesis using ann ne key tmpl spec pub Signing by blast
            qed
          qed
        qed
      qed
    qed
  qed
qed

subsection \<open>Issuance\<close>

lemmas example_defs = Sign_def Let_def map_index_def example_issuer_def example_request_def example_spec_def
  example_SecretTLSKey_def example_GenerateTemplate_def example_signingFn_def

text \<open>
  C1. Whenever \<^verbatim>\<open>Sign\<close> returns a response that is not nil, the response's certificate and
  its CA are the same bytes.
\<close>

theorem Sign_self_signed:
  "fst (Sign s w cr issuerObj) = Returned (Some r) err \<Longrightarrow> Certificate r = CA r"
  by (auto simp: Sign_def Let_def split: prod.splits sum.splits option.splits if_splits)

theorem Sign_self_signed_witness:
  "fst (Sign example_issuer 0 (example_request ''key'' [8, 1]) (example_spec [''http://issuer.example/crl'']))
     = Returned (Some \<lparr>Certificate = [8, 7, 1], CA = [8, 7, 1]\<rparr>) None
   \<and> Certificate \<lparr>Certificate = [8, 7, 1], CA = [8, 7, 1]\<rparr> = CA \<lparr>Certificate = [8, 7, 1], CA = [8, 7, 1]\<rparr>"
proof -
  have h: "fst (Sign example_issuer 0 (example_request ''key'' [8, 1]) (example_spec [''http://issuer.example/crl'']))
     = Returned (Some \<lparr>Certificate = [8, 7, 1], CA = [8, 7, 1]\<rparr>) None"
    by (simp add: example_defs)
  show ?thesis by (rule conjI [OF h Sign_self_signed [OF h]])
qed

subsection \<open>Facts about the effects\<close>

lemma report_notin_warned [simp]:
  "Failed e reason m \<notin> set (warned s template)"
  "Pending e reason m \<notin> set (warned s template)"
  by (simp_all add: warned_def)

lemma Sign_other_reasons:
  assumes "Failed e reason m \<in> set (snd (Sign s w cr issuerObj))
           \<or> Pending e reason m \<in> set (snd (Sign s w cr issuerObj))"
    and "reason \<noteq> ''ErrorGettingSecret''"
  shows "fst (Sign s w cr issuerObj) = Returned None None"
proof (cases rule: Sign_cases [where cr = cr and s = s and issuerObj = issuerObj])
  case MissingAnnotation
  show ?thesis by (simp add: Sign_MissingAnnotation [OF MissingAnnotation])
next
  case (KeyError secretName err)
  show ?thesis using assms by (simp add: Sign_SecretTLSKey_error [OF KeyError] split: if_splits)
next
  case (ErrorGenerating secretName privatekey err)
  show ?thesis by (simp add: Sign_ErrorGenerating [OF ErrorGenerating])
next
  case (Panic secretName privatekey template0)
  show ?thesis using assms by (simp add: Sign_nil_SelfSigned [OF Panic])
next
  case (ErrorPublicKey secretName privatekey template0 selfSigned err)
  show ?thesis by (simp add: Sign_ErrorPublicKey [OF ErrorPublicKey])
next
  case (ErrorKeyMatch secretName privatekey template0 selfSigned publickey ok err)
  show ?thesis by (simp add: Sign_ErrorKeyMatch [OF ErrorKeyMatch])
next
  case (Signing secretName privatekey template0 selfSigned publickey)
  show ?thesis using assms
    by (simp add: Sign_signing [OF Signing refl] split: sum.splits prod.splits)
qed

lemma seven_reasons:
  "reason \<in> {''MissingAnnotation'', ''MissingSecret'', ''ErrorParsingKey'', ''ErrorGenerating'',
              ''ErrorPublicKey'', ''ErrorKeyMatch'', ''ErrorSigning''} \<Longrightarrow> reason \<noteq> ''ErrorGettingSecret''"
  by (rule notI) simp


subsection \<open>Error propagation\<close>

text \<open>
  C2. \<^verbatim>\<open>Sign\<close> returns an error to its caller exactly when the key reference is present,
  the lookup of the key fails, and the failure is neither not-found nor invalid-data; the
  error returned is the one of the lookup, reported as \<open>Pending\<close> with reason
  \<^verbatim>\<open>ErrorGettingSecret\<close>. A not-found failure is reported as \<open>Pending\<close> with reason
  \<^verbatim>\<open>MissingSecret\<close>, an invalid-data failure (that is not also a not-found one, which the
  source tests first) as \<open>Pending\<close> with reason \<^verbatim>\<open>ErrorParsingKey\<close>, both with a nil
  result and a nil error. Any report with one of the seven other reasons comes with the return
  value \<^verbatim>\<open>(nil, nil)\<close>.
\<close>

theorem Sign_error_propagation:
  "(fst (Sign s w cr issuerObj) = Returned r (Some err) \<longleftrightarrow>
      r = None \<and>
      (\<exists>secretName.
         Annotations cr (CertificateRequestPrivateKeyAnnotationKey s) = Some secretName
         \<and> secretName \<noteq> ''''
         \<and> SecretTLSKey s (Namespace cr) secretName = Inl err
         \<and> \<not> IsNotFound s err \<and> \<not> IsInvalidData s err))
   \<and> (\<forall>secretName e.
         Annotations cr (CertificateRequestPrivateKeyAnnotationKey s) = Some secretName
         \<and> secretName \<noteq> ''''
         \<and> SecretTLSKey s (Namespace cr) secretName = Inl e \<longrightarrow>
         (IsNotFound s e \<longrightarrow>
            fst (Sign s w cr issuerObj) = Returned None None
            \<and> filter is_report (snd (Sign s w cr issuerObj)) =
                [Pending e ''MissingSecret''
                   (Sprintf s ''Referenced secret %s/%s not found'' [Namespace cr, secretName])])
         \<and> (\<not> IsNotFound s e \<and> IsInvalidData s e \<longrightarrow>
            fst (Sign s w cr issuerObj) = Returned None None
            \<and> filter is_report (snd (Sign s w cr issuerObj)) =
                [Pending e ''ErrorParsingKey''
                   (Sprintf s ''Failed to get key %q referenced in annotation %q''
                      [secretName, CertificateRequestPrivateKeyAnnotationKey s])])
         \<and> (\<not> IsNotFound s e \<and> \<not> IsInvalidData s e \<longrightarrow>
            fst (Sign s w cr issuerObj) = Returned None (Some e)
            \<and> filter is_report (snd (Sign s w cr issuerObj)) =
                [Pending e ''ErrorGettingSecret''
                   (Sprintf s ''Failed to get certificate key pair from secret %s/%s''
                      [ResourceNamespace s issuerObj, secretName])]))
   \<and> (\<forall>e reason m.
         (Failed e reason m \<in> set (snd (Sign s w cr issuerObj))
          \<or> Pending e reason m \<in> set (snd (Sign s w cr issuerObj)))
         \<and> reason \<in> {''MissingAnnotation'', ''MissingSecret'', ''ErrorParsingKey'', ''ErrorGenerating'',
                      ''ErrorPublicKey'', ''ErrorKeyMatch'', ''ErrorSigning''} \<longrightarrow>
         fst (Sign s w cr issuerObj) = Returned None None)"
proof (intro conjI)
  show "fst (Sign s w cr issuerObj) = Returned r (Some err) \<longleftrightarrow>
      r = None \<and>
      (\<exists>secretName.
         Annotations cr (CertificateRequestPrivateKeyAnnotationKey s) = Some secretName
         \<and> secretName \<noteq> ''''
         \<and> SecretTLSKey s (Namespace cr) secretName = Inl err
         \<and> \<not> IsNotFound s err \<and> \<not> IsInvalidData s err)"
  proof (cases rule: Sign_cases [where cr = cr and s = s and issuerObj = issuerObj])
    case MissingAnnotation
    then show ?thesis by (auto simp: Sign_MissingAnnotation [OF MissingAnnotation])
  next
    case (KeyError secretName e)
    then show ?thesis by (auto simp: Sign_SecretTLSKey_error [OF KeyError])
  next
    case (ErrorGenerating secretName privatekey e)
    then show ?thesis by (auto simp: Sign_ErrorGenerating [OF ErrorGenerating])
  next
    case (Panic secretName privatekey template0)
    then show ?thesis by (auto simp: Sign_nil_SelfSigned [OF Panic])
  next
    case (ErrorPublicKey secretName privatekey template0 selfSigned e)
    then show ?thesis by (auto simp: Sign_ErrorPublicKey [OF ErrorPublicKey])
  next
    case (ErrorKeyMatch secretName privatekey template0 selfSigned publickey ok e)
    then show ?thesis by (auto simp: Sign_ErrorKeyMatch [OF ErrorKeyMatch])
  next
    case (Signing secretName privatekey template0 selfSigned publickey)
    then show ?thesis
      by (auto simp: Sign_signing [OF Signing refl] split: sum.splits prod.splits)
  qed
next
  show "\<forall>secretName e.
         Annotations cr (CertificateRequestPrivateKeyAnnotationKey s) = Some secretName
         \<and> secretName \<noteq> ''''
         \<and> SecretTLSKey s (Namespace cr) secretName = Inl e \<longrightarrow>
         (IsNotFound s e \<longrightarrow>
            fst (Sign s w cr issuerObj) = Returned None None
            \<and> filter is_report (snd (Sign s w cr issuerObj)) =
                [Pending e ''MissingSecret''
                   (Sprintf s ''Referenced secret %s/%s not found'' [Namespace cr, secretName])])
         \<and> (\<not> IsNotFound s e \<and> IsInvalidData s e \<longrightarrow>
            fst (Sign s w cr issuerObj) = Returned None None
            \<and> filter is_report (snd (Sign s w cr issuerObj)) =
                [Pending e ''ErrorParsingKey''
                   (Sprintf s ''Failed to get key %q referenced in annotation %q''
                      [secretName, CertificateRequestPrivateKeyAnnotationKey s])])
         \<and> (\<not> IsNotFound s e \<and> \<not> IsInvalidData s e \<longrightarrow>
            fst (Sign s w cr issuerObj) = Returned None (Some e)
            \<and> filter is_report (snd (Sign s w cr issuerObj)) =
                [Pending e ''ErrorGettingSecret''
                   (Sprintf s ''Failed to get certificate key pair from secret %s/%s''
                      [ResourceNamespace s issuerObj, secretName])])"
    by (simp add: Sign_SecretTLSKey_error)
next
  show "\<forall>e reason m.
         (Failed e reason m \<in> set (snd (Sign s w cr issuerObj))
          \<or> Pending e reason m \<in> set (snd (Sign s w cr issuerObj)))
         \<and> reason \<in> {''MissingAnnotation'', ''MissingSecret'', ''ErrorParsingKey'', ''ErrorGenerating'',
                      ''ErrorPublicKey'', ''ErrorKeyMatch'', ''ErrorSigning''} \<longrightarrow>
         fst (Sign s w cr issuerObj) = Returned None None"
    using Sign_other_reasons [of _ _ _ s w cr issuerObj] seven_reasons by blast
qed

text \<open>The three kinds of lookup failure on the example issuer.\<close>

theorem Sign_error_propagation_witness:
  "fst (Sign example_issuer 0 (example_request ''unreachable'' [8, 1]) (example_spec []))
     = Returned None (Some (Foreign ''Timeout''))
   \<and> filter is_report (snd (Sign example_issuer 0 (example_request ''unreachable'' [8, 1]) (example_spec [])))
     = [Pending (Foreign ''Timeout'') ''ErrorGettingSecret''
          ''Failed to get certificate key pair from secret %s/%scert-managerunreachable'']
   \<and> fst (Sign example_issuer 0 (example_request ''absent'' [8, 1]) (example_spec []))
     = Returned None None
   \<and> filter is_report (snd (Sign example_issuer 0 (example_request ''absent'' [8, 1]) (example_spec [])))
     = [Pending (Foreign ''NotFound'') ''MissingSecret'' ''Referenced secret %s/%s not founddefaultabsent'']
   \<and> fst (Sign example_issuer 0 (example_request ''garbled'' [8, 1]) (example_spec []))
     = Returned None None
   \<and> Pending (Foreign ''InvalidData'') ''ErrorParsingKey''
        ''Failed to get key %q referenced in annotation %qgarbledcert-manager.io/private-key-secret-name''
      \<in> set (snd (Sign example_issuer 0 (example_request ''garbled'' [8, 1]) (example_spec [])))"
  using
    Sign_error_propagation [of example_issuer 0 "example_request ''unreachable'' [8, 1]" "example_spec []"
      None "Foreign ''Timeout''"]
    Sign_error_propagation [of example_issuer 0 "example_request ''absent'' [8, 1]" "example_spec []"
      None "Foreign ''NotFound''"]
    Sign_error_propagation [of example_issuer 0 "example_request ''garbled'' [8, 1]" "example_spec []"
      None "Foreign ''InvalidData''"]
  by (simp add: example_defs)

subsection \<open>Reports\<close>

text \<open>
  C3 as stated fails: an invocation that succeeds makes no call on the reporter, so
  it reports no outcome at all; the response goes back to the caller, which sets the ready
  condition.
\<close>

theorem Sign_exactly_one_report_counterexample:
  "Sign example_issuer 0 (example_request ''key'' [8, 1]) (example_spec [''http://issuer.example/crl''])
     = (Returned (Some \<lparr>Certificate = [8, 7, 1], CA = [8, 7, 1]\<rparr>) None,
        [LogInfo ''self signed certificate issued''])
   \<and> length (filter is_report
        (snd (Sign example_issuer 0 (example_request ''key'' [8, 1])
               (example_spec [''http://issuer.example/crl''])))) \<noteq> 1"
  by (simp add: example_defs)

text \<open>
  C3, amended. No invocation of \<^verbatim>\<open>Sign\<close> makes more than one call on the reporter
  (\<open>Failed\<close> or \<open>Pending\<close>). An invocation that returns a nil response has made exactly
  one. An invocation that returns a response has made none, returns a nil error, and the
  response holds the bytes the signing strategy produced as both certificate and CA.
\<close>

theorem Sign_reports_at_most_once:
  "length (filter is_report (snd (Sign s w cr issuerObj))) \<le> 1
   \<and> (\<forall>err. fst (Sign s w cr issuerObj) = Returned None err \<longrightarrow>
         length (filter is_report (snd (Sign s w cr issuerObj))) = 1)
   \<and> (\<forall>r err. fst (Sign s w cr issuerObj) = Returned (Some r) err \<longrightarrow>
         err = None
         \<and> filter is_report (snd (Sign s w cr issuerObj)) = []
         \<and> (\<exists>template publickey privatekey certPem cert.
               signingFn s w template template publickey privatekey = Inr (certPem, cert)
               \<and> r = \<lparr>Certificate = certPem, CA = certPem\<rparr>))"
proof (cases rule: Sign_cases [where cr = cr and s = s and issuerObj = issuerObj])
  case MissingAnnotation
  show ?thesis by (simp add: Sign_MissingAnnotation [OF MissingAnnotation])
next
  case (KeyError secretName err)
  show ?thesis by (simp add: Sign_SecretTLSKey_error [OF KeyError])
next
  case (ErrorGenerating secretName privatekey err)
  show ?thesis by (simp add: Sign_ErrorGenerating [OF ErrorGenerating])
next
  case (Panic secretName privatekey template0)
  show ?thesis by (simp add: Sign_nil_SelfSigned [OF Panic])
next
  case (ErrorPublicKey secretName privatekey template0 selfSigned err)
  show ?thesis by (simp add: Sign_ErrorPublicKey [OF ErrorPublicKey])
next
  case (ErrorKeyMatch secretName privatekey template0 selfSigned publickey ok err)
  show ?thesis by (simp add: Sign_ErrorKeyMatch [OF ErrorKeyMatch])
next
  case (Signing secretName privatekey template0 selfSigned publickey)
  show ?thesis
  proof (cases "signingFn s w (template0\<lparr>CRLDistributionPoints := IssuerCRLDistributionPoints selfSigned\<rparr>)
                  (template0\<lparr>CRLDistributionPoints := IssuerCRLDistributionPoints selfSigned\<rparr>)
                  publickey privatekey")
    case (Inl err)
    then show ?thesis by (simp add: Sign_signing [OF Signing refl])
  next
    case (Inr issued)
    then show ?thesis
      by (cases issued) (auto simp: Sign_signing [OF Signing refl])
  qed
qed

text \<open>A failing and a succeeding invocation on the example issuer.\<close>

theorem Sign_reports_at_most_once_witness:
  "fst (Sign example_issuer 0 (example_request ''absent'' [8, 1]) (example_spec [])) = Returned None None
   \<and> length (filter is_report (snd (Sign example_issuer 0 (example_request ''absent'' [8, 1]) (example_spec [])))) = 1
   \<and> fst (Sign example_issuer 0 (example_request ''key'' [8, 1]) (example_spec [''http://issuer.example/crl'']))
       = Returned (Some \<lparr>Certificate = [8, 7, 1], CA = [8, 7, 1]\<rparr>) None
   \<and> filter is_report (snd (Sign example_issuer 0 (example_request ''key'' [8, 1])
        (example_spec [''http://issuer.example/crl'']))) = []"
  using
    Sign_reports_at_most_once [of example_issuer 0 "example_request ''absent'' [8, 1]" "example_spec []"]
    Sign_reports_at_most_once [of example_issuer 0 "example_request ''key'' [8, 1]"
      "example_spec [''http://issuer.example/crl'']"]
  by (simp add: example_defs)

text \<open>
  C4. When the annotation that names the private key's secret is absent or maps to the empty
  string, \<^verbatim>\<open>Sign\<close> reports \<open>Failed\<close> with reason \<^verbatim>\<open>MissingAnnotation\<close> and returns
  \<^verbatim>\<open>(nil, nil)\<close>. Nothing else is consulted: the outcome is the same for any other
  namespace and request payload, any issuer, and any key resolver, template builder, key
  helpers and signing strategy.
\<close>

theorem Sign_missing_annotation:
  assumes "Annotations cr (CertificateRequestPrivateKeyAnnotationKey s) = None
           \<or> Annotations cr (CertificateRequestPrivateKeyAnnotationKey s) = Some ''''"
  shows "Sign s w cr issuerObj =
           (Returned None None,
            [Failed (errors_New ''secret name missing'') ''MissingAnnotation''
               (Sprintf s ''Annotation %q missing or reference empty''
                  [CertificateRequestPrivateKeyAnnotationKey s]),
             LogError (errors_New ''secret name missing'')
               (Sprintf s ''Annotation %q missing or reference empty''
                  [CertificateRequestPrivateKeyAnnotationKey s])])
         \<and> Sign (s\<lparr>ResourceNamespace := namespace', GetSpec := spec', SecretTLSKey := resolve',
                    IsNotFound := notFound', IsInvalidData := invalid',
                    GenerateTemplateFromCertificateRequest := build', Subject_String := string',
                    PublicKeyForPrivateKey := derive', PublicKeysEqual := equal', signingFn := sign'\<rparr>)
                 w' (cr\<lparr>Namespace := ns', Request := request'\<rparr>) issuerObj'
             = Sign s w cr issuerObj"
proof -
  let ?s' = "s\<lparr>ResourceNamespace := namespace', GetSpec := spec', SecretTLSKey := resolve',
                    IsNotFound := notFound', IsInvalidData := invalid',
                    GenerateTemplateFromCertificateRequest := build', Subject_String := string',
                    PublicKeyForPrivateKey := derive', PublicKeysEqual := equal', signingFn := sign'\<rparr>"
  let ?cr' = "cr\<lparr>Namespace := ns', Request := request'\<rparr>"
  have "Annotations ?cr' (CertificateRequestPrivateKeyAnnotationKey ?s') = None
        \<or> Annotations ?cr' (CertificateRequestPrivateKeyAnnotationKey ?s') = Some ''''"
    using assms by simp
  from Sign_MissingAnnotation [OF this] Sign_MissingAnnotation [OF assms]
  show ?thesis by simp
qed

text \<open>An empty reference and an absent annotation on the example issuer.\<close>

theorem Sign_missing_annotation_witness:
  "Annotations (example_request '''' [8, 1]) (CertificateRequestPrivateKeyAnnotationKey example_issuer) = Some ''''
   \<and> Sign example_issuer 0 (example_request '''' [8, 1]) (example_spec []) =
       (Returned None None,
        [Failed (errors_New ''secret name missing'') ''MissingAnnotation''
           ''Annotation %q missing or reference emptycert-manager.io/private-key-secret-name'',
         LogError (errors_New ''secret name missing'')
           ''Annotation %q missing or reference emptycert-manager.io/private-key-secret-name''])
   \<and> Annotations ((example_request ''key'' [8, 1])\<lparr>Annotations := Map.empty\<rparr>)
        (CertificateRequestPrivateKeyAnnotationKey example_issuer) = None
   \<and> fst (Sign example_issuer 0 ((example_request ''key'' [8, 1])\<lparr>Annotations := Map.empty\<rparr>) (example_spec []))
       = Returned None None"
proof -
  have h1: "Annotations (example_request '''' [8, 1]) (CertificateRequestPrivateKeyAnnotationKey example_issuer) = None
    \<or> Annotations (example_request '''' [8, 1]) (CertificateRequestPrivateKeyAnnotationKey example_issuer) = Some ''''"
    by (simp add: example_defs)
  have h2: "Annotations ((example_request ''key'' [8, 1])\<lparr>Annotations := Map.empty\<rparr>)
        (CertificateRequestPrivateKeyAnnotationKey example_issuer) = None
    \<or> Annotations ((example_request ''key'' [8, 1])\<lparr>Annotations := Map.empty\<rparr>)
        (CertificateRequestPrivateKeyAnnotationKey example_issuer) = Some ''''"
    by simp
  show ?thesis
    using Sign_missing_annotation [OF h1, of 0 "example_spec []", THEN conjunct1]
      Sign_missing_annotation [OF h2, of 0 "example_spec []", THEN conjunct1]
    by (simp add: example_issuer_def example_request_def)
qed

subsection \<open>Empty subject\<close>





subsection \<open>Key binding\<close>

text \<open>
  C6 as stated fails on the text of the synthesised error: the source builds it with
  \<^verbatim>\<open>errors.New("CSR not signed by referenced private key")\<close>.
\<close>

theorem Sign_key_mismatch_error_counterexample:
  "PublicKeysEqual example_issuer 8 9 = (False, None)
   \<and> filter is_report (snd (Sign example_issuer 0 (example_request ''key'' [9, 1]) (example_spec [])))
      = [Failed (errors_New ''CSR not signed by referenced private key'') ''ErrorKeyMatch''
           ''Error generating certificate template'']
   \<and> filter is_report (snd (Sign example_issuer 0 (example_request ''key'' [9, 1]) (example_spec [])))
      \<noteq> [Failed (errors_New ''request not signed by referenced private key'') ''ErrorKeyMatch''
           ''Error generating certificate template'']"
  by (simp add: example_defs)

text \<open>
  C6, amended. When the public key derived from the private key is compared with the public
  key of the template and the comparison returns an error or reports a mismatch,
  \<^verbatim>\<open>Sign\<close> reports \<open>Failed\<close> with reason \<^verbatim>\<open>ErrorKeyMatch\<close> and returns
  \<^verbatim>\<open>(nil, nil)\<close>. The error reported is the comparison's own when there is one, and otherwise
  one synthesised with the text \<^verbatim>\<open>CSR not signed by referenced private key\<close>. (The override
  of the CRL distribution points does not touch the template's public key.)
\<close>

theorem Sign_key_binding_failure:
  assumes "Annotations cr (CertificateRequestPrivateKeyAnnotationKey s) = Some secretName"
    and "secretName \<noteq> ''''"
    and "SecretTLSKey s (Namespace cr) secretName = Inr privatekey"
    and "GenerateTemplateFromCertificateRequest s cr = Inr template0"
    and "SelfSigned (GetSpec s issuerObj) = Some selfSigned"
    and "PublicKeyForPrivateKey s privatekey = Inr publickey"
    and "PublicKeysEqual s publickey (PublicKey template0) = (ok, err)"
    and "err \<noteq> None \<or> \<not> ok"
  shows "fst (Sign s w cr issuerObj) = Returned None None
         \<and> filter is_report (snd (Sign s w cr issuerObj)) =
             [Failed (case err of None \<Rightarrow> errors_New ''CSR not signed by referenced private key''
                                | Some e \<Rightarrow> e)
                ''ErrorKeyMatch'' ''Error generating certificate template'']"
  by (simp add: Sign_ErrorKeyMatch [OF assms])

text \<open>A mismatch without an error, and a comparison that fails, on the example issuer.\<close>

theorem Sign_key_binding_failure_witness:
  "fst (Sign example_issuer 0 (example_request ''key'' [9, 1]) (example_spec [])) = Returned None None
   \<and> filter is_report (snd (Sign example_issuer 0 (example_request ''key'' [9, 1]) (example_spec []))) =
       [Failed (case None of None \<Rightarrow> errors_New ''CSR not signed by referenced private key''
                           | Some e \<Rightarrow> e)
          ''ErrorKeyMatch'' ''Error generating certificate template'']
   \<and> fst (Sign example_issuer 0 (example_request ''key'' [0, 1]) (example_spec [])) = Returned None None
   \<and> filter is_report (snd (Sign example_issuer 0 (example_request ''key'' [0, 1]) (example_spec []))) =
       [Failed (case Some (Foreign ''UnknownKeyType'') of
                  None \<Rightarrow> errors_New ''CSR not signed by referenced private key'' | Some e \<Rightarrow> e)
          ''ErrorKeyMatch'' ''Error generating certificate template'']"
proof -
  let ?i = "example_spec []"
  have a: "Annotations (example_request ''key'' csr) (CertificateRequestPrivateKeyAnnotationKey example_issuer)
      = Some ''key''" for csr
    by (simp add: example_defs)
  have b: "''key'' \<noteq> ''''" by simp
  have c: "SecretTLSKey example_issuer (Namespace (example_request ''key'' csr)) ''key'' = Inr 7" for csr
    by (simp add: example_defs)
  have d: "GenerateTemplateFromCertificateRequest example_issuer (example_request ''key'' [b, 1])
      = Inr \<lparr>Subject = ''x'', PublicKey = unat b, CRLDistributionPoints = [''http://request.example/crl'']\<rparr>" for b
    by (simp add: example_defs)
  have e: "SelfSigned (GetSpec example_issuer ?i) = Some \<lparr>IssuerCRLDistributionPoints = []\<rparr>"
    by (simp add: example_defs)
  have f: "PublicKeyForPrivateKey example_issuer 7 = Inr 8"
    by (simp add: example_defs)
  have g1: "PublicKeysEqual example_issuer 8
      (PublicKey \<lparr>Subject = ''x'', PublicKey = unat (9 :: byte), CRLDistributionPoints = [''http://request.example/crl'']\<rparr>)
      = (False, None)"
    by (simp add: example_defs)
  have g2: "PublicKeysEqual example_issuer 8
      (PublicKey \<lparr>Subject = ''x'', PublicKey = unat (0 :: byte), CRLDistributionPoints = [''http://request.example/crl'']\<rparr>)
      = (False, Some (Foreign ''UnknownKeyType''))"
    by (simp add: example_defs)
  have h1: "(None :: string error option) \<noteq> None \<or> \<not> False" by simp
  have h2: "Some (Foreign ''UnknownKeyType'') \<noteq> None \<or> \<not> False" by simp
  from Sign_key_binding_failure [OF a b c d e f g1 h1, of 0]
       Sign_key_binding_failure [OF a b c d e f g2 h2, of 0]
  show ?thesis by blast
qed

subsection \<open>CRL distribution points\<close>

lemma Sign_requested_CRL_irrelevant:
  "Sign (s\<lparr>GenerateTemplateFromCertificateRequest :=
             \<lambda>c. map_sum id (\<lambda>t. t\<lparr>CRLDistributionPoints := requested c t\<rparr>)
                    (GenerateTemplateFromCertificateRequest s c)\<rparr>) w cr issuerObj
     = Sign s w cr issuerObj"
proof -
  let ?s' = "s\<lparr>GenerateTemplateFromCertificateRequest :=
             \<lambda>c. map_sum id (\<lambda>t. t\<lparr>CRLDistributionPoints := requested c t\<rparr>)
                    (GenerateTemplateFromCertificateRequest s c)\<rparr>"
  have eqs:
    "CertificateRequestPrivateKeyAnnotationKey ?s' = CertificateRequestPrivateKeyAnnotationKey s"
    "SecretTLSKey ?s' = SecretTLSKey s"
    "GetSpec ?s' = GetSpec s"
    "PublicKeyForPrivateKey ?s' = PublicKeyForPrivateKey s"
    "PublicKeysEqual ?s' = PublicKeysEqual s"
    by simp_all
  have failed: "GenerateTemplateFromCertificateRequest ?s' cr = Inl err"
    if "GenerateTemplateFromCertificateRequest s cr = Inl err" for err
    using that by simp
  have built: "GenerateTemplateFromCertificateRequest ?s' cr
                 = Inr (template0\<lparr>CRLDistributionPoints := requested cr template0\<rparr>)"
    if "GenerateTemplateFromCertificateRequest s cr = Inr template0" for template0
    using that by simp
  show ?thesis
  proof (cases rule: Sign_cases [where cr = cr and s = s and issuerObj = issuerObj])
    case MissingAnnotation
    show ?thesis
      by (simp add: Sign_MissingAnnotation [OF MissingAnnotation]
          Sign_MissingAnnotation [OF MissingAnnotation [folded eqs]])
  next
    case (KeyError secretName err)
    show ?thesis
      by (simp add: Sign_SecretTLSKey_error [OF KeyError]
          Sign_SecretTLSKey_error [OF KeyError [folded eqs]])
  next
    case (ErrorGenerating secretName privatekey err)
    show ?thesis
      by (simp add: Sign_ErrorGenerating [OF ErrorGenerating]
          Sign_ErrorGenerating [OF ErrorGenerating(1-3) [folded eqs] failed [OF ErrorGenerating(4)]])
  next
    case (Panic secretName privatekey template0)
    show ?thesis
      by (simp add: Sign_nil_SelfSigned [OF Panic]
          Sign_nil_SelfSigned [OF Panic(1-3) [folded eqs] built [OF Panic(4)] Panic(5) [folded eqs]])
  next
    case (ErrorPublicKey secretName privatekey template0 selfSigned err)
    show ?thesis
      by (simp add: Sign_ErrorPublicKey [OF ErrorPublicKey]
          Sign_ErrorPublicKey [OF ErrorPublicKey(1-3) [folded eqs] built [OF ErrorPublicKey(4)]
            ErrorPublicKey(5-6) [folded eqs]] warned_def)
  next
    case (ErrorKeyMatch secretName privatekey template0 selfSigned publickey ok err)
    have eq: "PublicKeysEqual ?s' publickey
                (PublicKey (template0\<lparr>CRLDistributionPoints := requested cr template0\<rparr>)) = (ok, err)"
      using ErrorKeyMatch(7) by simp
    show ?thesis
      by (simp add: Sign_ErrorKeyMatch [OF ErrorKeyMatch]
          Sign_ErrorKeyMatch [OF ErrorKeyMatch(1-3) [folded eqs] built [OF ErrorKeyMatch(4)]
            ErrorKeyMatch(5-6) [folded eqs] eq ErrorKeyMatch(8)] warned_def)
  next
    case (Signing secretName privatekey template0 selfSigned publickey)
    have eq: "PublicKeysEqual ?s' publickey
                (PublicKey (template0\<lparr>CRLDistributionPoints := requested cr template0\<rparr>)) = (True, None)"
      using Signing(7) by simp
    show ?thesis
      by (simp add: Sign_signing [OF Signing refl]
          Sign_signing [OF Signing(1-3) [folded eqs] built [OF Signing(4)]
            Signing(5-6) [folded eqs] eq refl] warned_def split: sum.splits prod.splits)
  qed
qed

text \<open>
  C7. The template that \<^verbatim>\<open>Sign\<close> works with after a successful template build carries
  exactly the issuer's CRL distribution points: it is the built template with that field
  overwritten, and it is what the signing strategy receives as issuer and as subject. The
  value the template builder had put in the field is overridden: changing it in any way
  changes nothing of what \<^verbatim>\<open>Sign\<close> returns or does.
\<close>

theorem Sign_CRLDistributionPoints_override:
  "(\<forall>secretName privatekey template0 selfSigned publickey.
      Annotations cr (CertificateRequestPrivateKeyAnnotationKey s) = Some secretName
      \<and> secretName \<noteq> ''''
      \<and> SecretTLSKey s (Namespace cr) secretName = Inr privatekey
      \<and> GenerateTemplateFromCertificateRequest s cr = Inr template0
      \<and> SelfSigned (GetSpec s issuerObj) = Some selfSigned
      \<and> PublicKeyForPrivateKey s privatekey = Inr publickey
      \<and> PublicKeysEqual s publickey (PublicKey template0) = (True, None) \<longrightarrow>
      CRLDistributionPoints (template0\<lparr>CRLDistributionPoints := IssuerCRLDistributionPoints selfSigned\<rparr>)
        = IssuerCRLDistributionPoints selfSigned
      \<and> Sign s w cr issuerObj =
          (case signingFn s w
                  (template0\<lparr>CRLDistributionPoints := IssuerCRLDistributionPoints selfSigned\<rparr>)
                  (template0\<lparr>CRLDistributionPoints := IssuerCRLDistributionPoints selfSigned\<rparr>)
                  publickey privatekey of
             Inl err \<Rightarrow>
               (Returned None None,
                warned s (template0\<lparr>CRLDistributionPoints := IssuerCRLDistributionPoints selfSigned\<rparr>) @
                  [Failed err ''ErrorSigning'' ''Error signing certificate'',
                   LogError err ''Error signing certificate''])
           | Inr (certPem, cert) \<Rightarrow>
               (Returned (Some \<lparr>Certificate = certPem, CA = certPem\<rparr>) None,
                warned s (template0\<lparr>CRLDistributionPoints := IssuerCRLDistributionPoints selfSigned\<rparr>) @
                  [LogInfo ''self signed certificate issued''])))
   \<and> Sign (s\<lparr>GenerateTemplateFromCertificateRequest :=
               \<lambda>c. map_sum id (\<lambda>t. t\<lparr>CRLDistributionPoints := requested c t\<rparr>)
                      (GenerateTemplateFromCertificateRequest s c)\<rparr>) w cr issuerObj
       = Sign s w cr issuerObj"
proof (intro conjI allI impI)
  fix secretName privatekey template0 selfSigned publickey
  assume "Annotations cr (CertificateRequestPrivateKeyAnnotationKey s) = Some secretName
      \<and> secretName \<noteq> ''''
      \<and> SecretTLSKey s (Namespace cr) secretName = Inr privatekey
      \<and> GenerateTemplateFromCertificateRequest s cr = Inr template0
      \<and> SelfSigned (GetSpec s issuerObj) = Some selfSigned
      \<and> PublicKeyForPrivateKey s privatekey = Inr publickey
      \<and> PublicKeysEqual s publickey (PublicKey template0) = (True, None)"
  then have path: "Annotations cr (CertificateRequestPrivateKeyAnnotationKey s) = Some secretName"
    "secretName \<noteq> ''''"
    "SecretTLSKey s (Namespace cr) secretName = Inr privatekey"
    "GenerateTemplateFromCertificateRequest s cr = Inr template0"
    "SelfSigned (GetSpec s issuerObj) = Some selfSigned"
    "PublicKeyForPrivateKey s privatekey = Inr publickey"
    "PublicKeysEqual s publickey (PublicKey template0) = (True, None)"
    by simp_all
  show "CRLDistributionPoints (template0\<lparr>CRLDistributionPoints := IssuerCRLDistributionPoints selfSigned\<rparr>)
        = IssuerCRLDistributionPoints selfSigned"
    by simp
  show "Sign s w cr issuerObj =
          (case signingFn s w
                  (template0\<lparr>CRLDistributionPoints := IssuerCRLDistributionPoints selfSigned\<rparr>)
                  (template0\<lparr>CRLDistributionPoints := IssuerCRLDistributionPoints selfSigned\<rparr>)
                  publickey privatekey of
             Inl err \<Rightarrow>
               (Returned None None,
                warned s (template0\<lparr>CRLDistributionPoints := IssuerCRLDistributionPoints selfSigned\<rparr>) @
                  [Failed err ''ErrorSigning'' ''Error signing certificate'',
                   LogError err ''Error signing certificate''])
           | Inr (certPem, cert) \<Rightarrow>
               (Returned (Some \<lparr>Certificate = certPem, CA = certPem\<rparr>) None,
                warned s (template0\<lparr>CRLDistributionPoints := IssuerCRLDistributionPoints selfSigned\<rparr>) @
                  [LogInfo ''self signed certificate issued'']))"
    by (rule Sign_signing [OF path refl])
next
  show "Sign (s\<lparr>GenerateTemplateFromCertificateRequest :=
               \<lambda>c. map_sum id (\<lambda>t. t\<lparr>CRLDistributionPoints := requested c t\<rparr>)
                      (GenerateTemplateFromCertificateRequest s c)\<rparr>) w cr issuerObj
       = Sign s w cr issuerObj"
    by (rule Sign_requested_CRL_irrelevant)
qed

text \<open>
  The example signer writes the number of CRL distribution points of the issuer template as
  the third byte: two, the issuer's, not the one of the request.
\<close>

theorem Sign_CRLDistributionPoints_override_witness:
  "GenerateTemplateFromCertificateRequest example_issuer (example_request ''key'' [8, 1])
     = Inr \<lparr>Subject = ''x'', PublicKey = 8, CRLDistributionPoints = [''http://request.example/crl'']\<rparr>
   \<and> CRLDistributionPoints
        (\<lparr>Subject = ''x'', PublicKey = 8 :: nat, CRLDistributionPoints = [''http://request.example/crl'']\<rparr>
           \<lparr>CRLDistributionPoints := IssuerCRLDistributionPoints
              \<lparr>IssuerCRLDistributionPoints = [''http://a.example/crl'', ''http://b.example/crl'']\<rparr>\<rparr>)
      = [''http://a.example/crl'', ''http://b.example/crl'']
   \<and> Sign example_issuer 0 (example_request ''key'' [8, 1])
        (example_spec [''http://a.example/crl'', ''http://b.example/crl''])
      = (Returned (Some \<lparr>Certificate = [8, 7, 2], CA = [8, 7, 2]\<rparr>) None,
         [LogInfo ''self signed certificate issued''])"
proof -
  let ?cr = "example_request ''key'' [8, 1]"
  let ?i = "example_spec [''http://a.example/crl'', ''http://b.example/crl'']"
  let ?t0 = "\<lparr>Subject = ''x'', PublicKey = 8 :: nat,
               CRLDistributionPoints = [''http://request.example/crl'']\<rparr>"
  let ?ss = "\<lparr>IssuerCRLDistributionPoints = [''http://a.example/crl'', ''http://b.example/crl'']\<rparr>"
  have path: "Annotations ?cr (CertificateRequestPrivateKeyAnnotationKey example_issuer) = Some ''key''
      \<and> ''key'' \<noteq> ''''
      \<and> SecretTLSKey example_issuer (Namespace ?cr) ''key'' = Inr 7
      \<and> GenerateTemplateFromCertificateRequest example_issuer ?cr = Inr ?t0
      \<and> SelfSigned (GetSpec example_issuer ?i) = Some ?ss
      \<and> PublicKeyForPrivateKey example_issuer 7 = Inr 8
      \<and> PublicKeysEqual example_issuer 8 (PublicKey ?t0) = (True, None)"
    by (simp add: example_defs)
  note T = Sign_CRLDistributionPoints_override [where s = example_issuer and cr = ?cr and issuerObj = ?i
      and w = 0 and requested = "\<lambda>c t. []", THEN conjunct1, rule_format, OF path]
  from path T show ?thesis
    by (simp add: example_defs warned_def)
qed

subsection \<open>Determinism\<close>




text \<open>A signer that reads its randomness gives different bytes on different runs.\<close>

lemma Sign_random_signer:
  "Sign (example_issuer\<lparr>signingFn := \<lambda>w issuer subject publickey privatekey. Inr ([of_nat w], subject)\<rparr>)
     0 (example_request ''key'' [8, 1]) (example_spec [])
   \<noteq> Sign (example_issuer\<lparr>signingFn := \<lambda>w issuer subject publickey privatekey. Inr ([of_nat w], subject)\<rparr>)
     1 (example_request ''key'' [8, 1]) (example_spec [])"
  by (simp add: example_defs)

subsection \<open>The warning and later failures\<close>

text \<open>
  C9. The warning event for an empty subject is emitted before the public key is derived,
  the keys are compared and the certificate is signed. So when the template has an empty
  subject and one of these three steps fails, the event has been emitted, in front of the
  \<open>Failed\<close> report (reason \<^verbatim>\<open>ErrorPublicKey\<close>, \<^verbatim>\<open>ErrorKeyMatch\<close> or
  \<^verbatim>\<open>ErrorSigning\<close>), and the invocation returns a nil response: the event does not imply
  that a certificate was issued.
\<close>

theorem Sign_warning_before_failure:
  assumes "Annotations cr (CertificateRequestPrivateKeyAnnotationKey s) = Some secretName"
    and "secretName \<noteq> ''''"
    and "SecretTLSKey s (Namespace cr) secretName = Inr privatekey"
    and "GenerateTemplateFromCertificateRequest s cr = Inr template0"
    and "SelfSigned (GetSpec s issuerObj) = Some selfSigned"
    and "Subject_String s (Subject template0) = ''''"
  shows
    "(\<forall>err. PublicKeyForPrivateKey s privatekey = Inl err \<longrightarrow>
        Sign s w cr issuerObj =
          (Returned None None,
           [LogInfo ''issued cert will have an empty issuer DN, which contravenes RFC 5280. emitting warning event'',
            Event EventTypeWarning ''BadConfig'' emptyDNMessage,
            Failed err ''ErrorPublicKey'' ''Failed to get public key from private key'',
            LogError err ''Failed to get public key from private key'']))
     \<and> (\<forall>publickey ok err.
          PublicKeyForPrivateKey s privatekey = Inr publickey
          \<and> PublicKeysEqual s publickey (PublicKey template0) = (ok, err)
          \<and> (err \<noteq> None \<or> \<not> ok) \<longrightarrow>
          Sign s w cr issuerObj =
            (Returned None None,
             [LogInfo ''issued cert will have an empty issuer DN, which contravenes RFC 5280. emitting warning event'',
              Event EventTypeWarning ''BadConfig'' emptyDNMessage,
              Failed (case err of None \<Rightarrow> errors_New ''CSR not signed by referenced private key''
                                 | Some e \<Rightarrow> e)
                ''ErrorKeyMatch'' ''Error generating certificate template'',
              LogError (case err of None \<Rightarrow> errors_New ''CSR not signed by referenced private key''
                                   | Some e \<Rightarrow> e)
                ''Error generating certificate template'']))
     \<and> (\<forall>publickey err.
          PublicKeyForPrivateKey s privatekey = Inr publickey
          \<and> PublicKeysEqual s publickey (PublicKey template0) = (True, None)
          \<and> signingFn s w
               (template0\<lparr>CRLDistributionPoints := IssuerCRLDistributionPoints selfSigned\<rparr>)
               (template0\<lparr>CRLDistributionPoints := IssuerCRLDistributionPoints selfSigned\<rparr>)
               publickey privatekey = Inl err \<longrightarrow>
          Sign s w cr issuerObj =
            (Returned None None,
             [LogInfo ''issued cert will have an empty issuer DN, which contravenes RFC 5280. emitting warning event'',
              Event EventTypeWarning ''BadConfig'' emptyDNMessage,
              Failed err ''ErrorSigning'' ''Error signing certificate'',
              LogError err ''Error signing certificate'']))"
proof -
  let ?template = "template0\<lparr>CRLDistributionPoints := IssuerCRLDistributionPoints selfSigned\<rparr>"
  note path = assms(1-5)
  have w: "warned s ?template =
    [LogInfo ''issued cert will have an empty issuer DN, which contravenes RFC 5280. emitting warning event'',
     Event EventTypeWarning ''BadConfig'' emptyDNMessage]"
    using assms(6) by (simp add: warned_def)
  have a: "Sign s w cr issuerObj =
          (Returned None None,
           [LogInfo ''issued cert will have an empty issuer DN, which contravenes RFC 5280. emitting warning event'',
            Event EventTypeWarning ''BadConfig'' emptyDNMessage,
            Failed err ''ErrorPublicKey'' ''Failed to get public key from private key'',
            LogError err ''Failed to get public key from private key''])"
    if "PublicKeyForPrivateKey s privatekey = Inl err" for err
    by (simp add: Sign_ErrorPublicKey [OF path that] w)
  have b: "Sign s w cr issuerObj =
            (Returned None None,
             [LogInfo ''issued cert will have an empty issuer DN, which contravenes RFC 5280. emitting warning event'',
              Event EventTypeWarning ''BadConfig'' emptyDNMessage,
              Failed (case err of None \<Rightarrow> errors_New ''CSR not signed by referenced private key''
                                 | Some e \<Rightarrow> e)
                ''ErrorKeyMatch'' ''Error generating certificate template'',
              LogError (case err of None \<Rightarrow> errors_New ''CSR not signed by referenced private key''
                                   | Some e \<Rightarrow> e)
                ''Error generating certificate template''])"
    if "PublicKeyForPrivateKey s privatekey = Inr publickey"
      and "PublicKeysEqual s publickey (PublicKey template0) = (ok, err)"
      and "err \<noteq> None \<or> \<not> ok" for publickey ok err
    by (simp add: Sign_ErrorKeyMatch [OF path that] w)
  have c: "Sign s w cr issuerObj =
            (Returned None None,
             [LogInfo ''issued cert will have an empty issuer DN, which contravenes RFC 5280. emitting warning event'',
              Event EventTypeWarning ''BadConfig'' emptyDNMessage,
              Failed err ''ErrorSigning'' ''Error signing certificate'',
              LogError err ''Error signing certificate''])"
    if "PublicKeyForPrivateKey s privatekey = Inr publickey"
      and "PublicKeysEqual s publickey (PublicKey template0) = (True, None)"
      and "signingFn s w ?template ?template publickey privatekey = Inl err" for publickey err
    using that(3) by (simp add: Sign_signing [OF path that(1,2) refl] w)
  from a b c show ?thesis by blast
qed

text \<open>Each of the three failures after the warning, on the example issuer.\<close>

theorem Sign_warning_before_failure_witness:
  "Sign example_issuer 0 (example_request ''unusable'' [8]) (example_spec [''http://issuer.example/crl'']) =
     (Returned None None,
      [LogInfo ''issued cert will have an empty issuer DN, which contravenes RFC 5280. emitting warning event'',
       Event EventTypeWarning ''BadConfig'' emptyDNMessage,
       Failed (Foreign ''UnknownKeyType'') ''ErrorPublicKey'' ''Failed to get public key from private key'',
       LogError (Foreign ''UnknownKeyType'') ''Failed to get public key from private key''])
   \<and> Sign example_issuer 0 (example_request ''key'' [9]) (example_spec [''http://issuer.example/crl'']) =
     (Returned None None,
      [LogInfo ''issued cert will have an empty issuer DN, which contravenes RFC 5280. emitting warning event'',
       Event EventTypeWarning ''BadConfig'' emptyDNMessage,
       Failed (errors_New ''CSR not signed by referenced private key'')
         ''ErrorKeyMatch'' ''Error generating certificate template'',
       LogError (errors_New ''CSR not signed by referenced private key'')
         ''Error generating certificate template''])
   \<and> Sign example_issuer 0 (example_request ''key'' [8]) (example_spec []) =
     (Returned None None,
      [LogInfo ''issued cert will have an empty issuer DN, which contravenes RFC 5280. emitting warning event'',
       Event EventTypeWarning ''BadConfig'' emptyDNMessage,
       Failed (Foreign ''NoCRL'') ''ErrorSigning'' ''Error signing certificate'',
       LogError (Foreign ''NoCRL'') ''Error signing certificate''])"
proof -
  let ?i = "example_spec [''http://issuer.example/crl'']"
  let ?ss = "\<lparr>IssuerCRLDistributionPoints = [''http://issuer.example/crl'']\<rparr>"
  have a: "Annotations (example_request name csr) (CertificateRequestPrivateKeyAnnotationKey example_issuer)
      = Some name" for name csr
    by (simp add: example_defs)
  have b: "''unusable'' \<noteq> ''''" "''key'' \<noteq> ''''" by simp_all
  have c: "SecretTLSKey example_issuer (Namespace (example_request ''unusable'' csr)) ''unusable'' = Inr 0"
    "SecretTLSKey example_issuer (Namespace (example_request ''key'' csr)) ''key'' = Inr 7" for csr
    by (simp_all add: example_defs)
  have d: "GenerateTemplateFromCertificateRequest example_issuer (example_request name [k])
      = Inr \<lparr>Subject = '''', PublicKey = unat k, CRLDistributionPoints = [''http://request.example/crl'']\<rparr>"
    for name k
    by (simp add: example_defs)
  have e: "SelfSigned (GetSpec example_issuer (example_spec crl)) = Some \<lparr>IssuerCRLDistributionPoints = crl\<rparr>"
    for crl
    by (simp add: example_defs)
  have f: "Subject_String example_issuer (Subject \<lparr>Subject = '''', PublicKey = unat (k :: byte),
      CRLDistributionPoints = [''http://request.example/crl'']\<rparr>) = ''''" for k
    by (simp add: example_defs)
  have g: "PublicKeyForPrivateKey example_issuer 0 = Inl (Foreign ''UnknownKeyType'')"
    "PublicKeyForPrivateKey example_issuer 7 = Inr 8"
    by (simp_all add: example_defs)
  have h: "PublicKeysEqual example_issuer 8 (PublicKey \<lparr>Subject = '''', PublicKey = unat (9 :: byte),
      CRLDistributionPoints = [''http://request.example/crl'']\<rparr>) = (False, None)
      \<and> ((None :: string error option) \<noteq> None \<or> \<not> False)"
    "PublicKeysEqual example_issuer 8 (PublicKey \<lparr>Subject = '''', PublicKey = unat (8 :: byte),
      CRLDistributionPoints = [''http://request.example/crl'']\<rparr>) = (True, None)"
    by (simp_all add: example_defs)
  have i: "signingFn example_issuer 0
      (\<lparr>Subject = '''', PublicKey = unat (8 :: byte), CRLDistributionPoints = [''http://request.example/crl'']\<rparr>
         \<lparr>CRLDistributionPoints := IssuerCRLDistributionPoints \<lparr>IssuerCRLDistributionPoints = []\<rparr>\<rparr>)
      (\<lparr>Subject = '''', PublicKey = unat (8 :: byte), CRLDistributionPoints = [''http://request.example/crl'']\<rparr>
         \<lparr>CRLDistributionPoints := IssuerCRLDistributionPoints \<lparr>IssuerCRLDistributionPoints = []\<rparr>\<rparr>)
      8 7 = Inl (Foreign ''NoCRL'')"
    by (simp add: example_defs)
  note T1 = Sign_warning_before_failure [OF a b(1) c(1) d e f, of 0, THEN conjunct1, rule_format, OF g(1)]
  note T2 = Sign_warning_before_failure [OF a b(2) c(2) d e f, of 0, THEN conjunct2, THEN conjunct1,
      rule_format, OF conjI [OF g(2) h(1)]]
  note T3 = Sign_warning_before_failure [OF a b(2) c(2) d e f, of 0, THEN conjunct2, THEN conjunct2,
      rule_format, OF conjI [OF g(2) conjI [OF h(2) i]]]
  from T1 T2 T3 show ?thesis by simp
qed

subsection \<open>Messages\<close>

text \<open>
  C10. Every \<open>Failed\<close> report with reason \<^verbatim>\<open>ErrorKeyMatch\<close> carries the message
  \<^verbatim>\<open>Error generating certificate template\<close>, the very message of the reports with reason
  \<^verbatim>\<open>ErrorGenerating\<close>: the two differ in the reason and in the error only.
\<close>

theorem Sign_ErrorKeyMatch_message:
  "(\<forall>e m. Failed e ''ErrorKeyMatch'' m \<in> set (snd (Sign s w cr issuerObj)) \<longrightarrow>
      m = ''Error generating certificate template'')
   \<and> (\<forall>e m. Failed e ''ErrorGenerating'' m \<in> set (snd (Sign s w cr issuerObj)) \<longrightarrow>
      m = ''Error generating certificate template'')"
proof (cases rule: Sign_cases [where cr = cr and s = s and issuerObj = issuerObj])
  case MissingAnnotation
  show ?thesis by (simp add: Sign_MissingAnnotation [OF MissingAnnotation])
next
  case (KeyError secretName err)
  show ?thesis by (simp add: Sign_SecretTLSKey_error [OF KeyError])
next
  case (ErrorGenerating secretName privatekey err)
  show ?thesis by (simp add: Sign_ErrorGenerating [OF ErrorGenerating])
next
  case (Panic secretName privatekey template0)
  show ?thesis by (simp add: Sign_nil_SelfSigned [OF Panic])
next
  case (ErrorPublicKey secretName privatekey template0 selfSigned err)
  show ?thesis by (simp add: Sign_ErrorPublicKey [OF ErrorPublicKey])
next
  case (ErrorKeyMatch secretName privatekey template0 selfSigned publickey ok err)
  show ?thesis by (simp add: Sign_ErrorKeyMatch [OF ErrorKeyMatch])
next
  case (Signing secretName privatekey template0 selfSigned publickey)
  show ?thesis
    by (simp add: Sign_signing [OF Signing refl] split: sum.splits prod.splits)
qed

text \<open>Both reports occur on the example issuer, with the same message.\<close>

theorem Sign_ErrorKeyMatch_message_witness:
  "Failed (errors_New ''CSR not signed by referenced private key'') ''ErrorKeyMatch''
      ''Error generating certificate template''
     \<in> set (snd (Sign example_issuer 0 (example_request ''key'' [9, 1]) (example_spec [])))
   \<and> Failed (Foreign ''BadRequest'') ''ErrorGenerating'' ''Error generating certificate template''
     \<in> set (snd (Sign example_issuer 0 (example_request ''key'' []) (example_spec [])))
   \<and> ''Error generating certificate template'' = ''Error generating certificate template''"
proof -
  have a: "Failed (errors_New ''CSR not signed by referenced private key'') ''ErrorKeyMatch''
      ''Error generating certificate template''
     \<in> set (snd (Sign example_issuer 0 (example_request ''key'' [9, 1]) (example_spec [])))"
    by (simp add: example_defs)
  have b: "Failed (Foreign ''BadRequest'') ''ErrorGenerating'' ''Error generating certificate template''
     \<in> set (snd (Sign example_issuer 0 (example_request ''key'' []) (example_spec [])))"
    by (simp add: example_defs)
  note T = Sign_ErrorKeyMatch_message [of example_issuer 0 "example_request ''key'' [9, 1]" "example_spec []",
      THEN conjunct1, rule_format, OF a]
  show ?thesis by (rule conjI [OF a conjI [OF b T]])
qed

end
